theory Spec2Isabelle
  imports Main "HOL-Library.Multiset"
begin

section \<open>Compile-time entities of \<open>meta_types.hpp\<close>\<close>

text \<open>
  The header works on template parameter packs. A pack of types
  \<open>typename... Types\<close> is a list over a universe \<open>'ty\<close> of C++ types, in which two
  elements are equal exactly when the two types are the same type. A pack of function
  arguments \<open>const Args... args\<close> is a list of constant values, each one carrying the
  type the compiler deduces for it (its declared type) and its content.
\<close>

datatype ('ty, 'v) cval = CVal (decl_type: 'ty) (content: 'v)

text \<open>
  The types of the header's unit tests: \<open>TestType1\<close> to \<open>TestType3\<close> are empty structs,
  \<open>TestType4\<close> to \<open>TestType6\<close> scoped enumerations, and \<open>TestType7\<close>, \<open>TestType8\<close>,
  \<open>TestType9\<close> are aliases of \<open>bool\<close>, \<open>unsigned long\<close> and \<open>unsigned\<close>. The content of
  a value is its integer value (0 for the value of an empty struct).
\<close>

datatype cxx_type =
    T_bool | T_int | T_unsigned | T_long | T_unsigned_long
  | TestType1 | TestType2 | TestType3 | TestType4 | TestType5 | TestType6

abbreviation TestType7 :: cxx_type where "TestType7 \<equiv> T_bool"
abbreviation TestType8 :: cxx_type where "TestType8 \<equiv> T_unsigned_long"
abbreviation TestType9 :: cxx_type where "TestType9 \<equiv> T_unsigned"

text \<open>
  The implicit conversions of C++ between the types above: the arithmetic types convert
  to one another, a scoped enumeration or a struct converts only to itself. None of the
  header's operations consults it; it gives the concrete "convertible but distinct"
  pairs of types.
\<close>

fun arithmetic :: "cxx_type \<Rightarrow> bool" where
  "arithmetic T_bool = True"
| "arithmetic T_int = True"
| "arithmetic T_unsigned = True"
| "arithmetic T_long = True"
| "arithmetic T_unsigned_long = True"
| "arithmetic _ = False"

definition implicitly_convertible :: "cxx_type \<Rightarrow> cxx_type \<Rightarrow> bool" where
  "implicitly_convertible From To = (if From = To then True else arithmetic From \<and> arithmetic To)"

section \<open>\<open>var_pack\<close>: private helpers\<close>

text \<open>
  \<open>var_pack::is_same<T, U>\<close>: the primary template has \<open>value = false\<close>, the partial
  specialisation \<open>is_same<T, T>\<close> has \<open>value = true\<close>.
\<close>

definition is_same_v :: "'ty \<Rightarrow> 'ty \<Rightarrow> bool" where
  "is_same_v T U = (if T = U then True else False)"

text \<open>
  A unary right fold \<open>(e && ...)\<close> over a pack expansion: \<open>e1 && (e2 && (... && eN))\<close>,
  and \<open>true\<close> for the empty pack.
\<close>

fun fold_and :: "bool list \<Rightarrow> bool" where
  "fold_and [] = True"
| "fold_and [e] = e"
| "fold_and (e # es) = (e \<and> fold_and es)"

text \<open>
  \<open>is_types_unique<Types...>::duplicate_type<First, Rest...>\<close> (lines 144-150): the
  specialisation for a single type is \<open>true\<close>; the primary template compares \<open>First\<close>
  with every type of \<open>Rest\<close> and recurses on \<open>Rest\<close>.
\<close>

fun duplicate_type :: "'ty \<Rightarrow> 'ty list \<Rightarrow> bool" where
  "duplicate_type First [] = True"
| "duplicate_type First (Next # Rest) =
     (fold_and (map (\<lambda>R. \<not> is_same_v First R) (Next # Rest)) \<and> duplicate_type Next Rest)"

text \<open>
  \<open>is_types_unique<Types...>::value\<close> (lines 153-159): \<open>true\<close> for the empty pack
  (\<open>if constexpr (sizeof...(Types))\<close>), \<open>duplicate_type<Types...>::value\<close> otherwise.
\<close>

definition is_types_unique :: "'ty list \<Rightarrow> bool" where
  "is_types_unique Types =
     (case Types of [] \<Rightarrow> True | First # Rest \<Rightarrow> duplicate_type First Rest)"

text \<open>
  \<open>duplicate::is_same_v\<close> (lines 163-164), two function templates: \<open>(const T, const T)\<close>
  returns \<open>true\<close> and is the more specialised one, so it is chosen whenever both
  arguments have the same deduced type; \<open>(const T, const U)\<close> returns \<open>false\<close> and is
  the only viable one when the types differ. Neither body reads its arguments.
\<close>

definition duplicate_is_same_v :: "('ty, 'v) cval \<Rightarrow> ('ty, 'v) cval \<Rightarrow> bool" where
  "duplicate_is_same_v a b = (if decl_type a = decl_type b then True else False)"

text \<open>\<open>duplicate::duplicate_types_val\<close> (lines 166-170), three overloads.\<close>

fun duplicate_types_val :: "('ty, 'v) cval list \<Rightarrow> bool" where
  "duplicate_types_val [] = True"
| "duplicate_types_val [first] = True"
| "duplicate_types_val (first # rest) =
     (fold_and (map (\<lambda>r. \<not> duplicate_is_same_v first r) rest) \<and> duplicate_types_val rest)"

text \<open>
  \<open>contains_list<TypeFirst, TypesRest...>\<close> (lines 173-193). The allowed list is never
  empty: it is given as its first type and the list of the others.
  \<open>is_parameter_inside\<close> has the overload \<open>(const TypeFirst)\<close>, not a template, returning
  \<open>true\<close>, and the template \<open>(const Value)\<close>. For an argument of type \<open>TypeFirst\<close> both
  match exactly and the non-template wins; for any other type the template is the exact
  match and wins, also over a conversion to \<open>TypeFirst\<close>. The template passes the value
  on to \<open>contains_list<TypesRest...>\<close>, or returns \<open>false\<close> in the specialisation for
  a single type.
\<close>

fun contains_list_is_parameter_inside :: "'ty \<Rightarrow> 'ty list \<Rightarrow> ('ty, 'v) cval \<Rightarrow> bool" where
  "contains_list_is_parameter_inside TypeFirst [] val =
     (if decl_type val = TypeFirst then True else False)"
| "contains_list_is_parameter_inside TypeFirst (TypeNext # TypesRest) val =
     (if decl_type val = TypeFirst then True
      else contains_list_is_parameter_inside TypeNext TypesRest val)"

fun contains_list_contains :: "'ty \<Rightarrow> 'ty list \<Rightarrow> ('ty, 'v) cval list \<Rightarrow> bool" where
  "contains_list_contains TypeFirst TypesRest [] = True"
| "contains_list_contains TypeFirst TypesRest (first # rest) =
     (if contains_list_is_parameter_inside TypeFirst TypesRest first
      then contains_list_contains TypeFirst TypesRest rest else False)"

section \<open>\<open>var_pack\<close>: public interface\<close>

text \<open>
  \<open>is_type_list<TypeFirst, TypeRest...>\<close> (lines 204-260), the primary template and the
  specialisation for a single type.
\<close>

fun is_parameter_inside :: "'ty \<Rightarrow> 'ty list \<Rightarrow> 'ty \<Rightarrow> bool" where
  "is_parameter_inside TypeFirst [] T = (if is_same_v T TypeFirst then True else False)"
| "is_parameter_inside TypeFirst (TypeNext # TypeRest) T =
     (if is_same_v T TypeFirst then True else is_parameter_inside TypeNext TypeRest T)"

fun contains :: "'ty \<Rightarrow> 'ty list \<Rightarrow> 'ty \<Rightarrow> 'ty list \<Rightarrow> bool" where
  "contains TypeFirst TypeRest ParamFirst [] =
     (if is_parameter_inside TypeFirst TypeRest ParamFirst then True else False)"
| "contains TypeFirst TypeRest ParamFirst (ParamNext # ParamRest) =
     (if is_parameter_inside TypeFirst TypeRest ParamFirst
      then contains TypeFirst TypeRest ParamNext ParamRest else False)"

definition contains_v :: "'ty \<Rightarrow> 'ty list \<Rightarrow> 'ty list \<Rightarrow> bool" where
  "contains_v TypeFirst TypeRest Params =
     (case Params of [] \<Rightarrow> True
      | ParamFirst # ParamRest \<Rightarrow> contains TypeFirst TypeRest ParamFirst ParamRest)"

text \<open>\<open>is_types_unique_v<Types...>\<close> (line 262).\<close>

definition is_types_unique_v :: "'ty list \<Rightarrow> bool" where
  "is_types_unique_v Types = is_types_unique Types"

text \<open>\<open>is_types_val_unique_v(args...)\<close> (lines 270-274), three overloads.\<close>

fun is_types_val_unique_v :: "('ty, 'v) cval list \<Rightarrow> bool" where
  "is_types_val_unique_v [] = True"
| "is_types_val_unique_v [first] = True"
| "is_types_val_unique_v (first # rest) = duplicate_types_val (first # rest)"

text \<open>\<open>is_type_val_list<TypeFirst, TypesRest...>::contains_v(args...)\<close> (lines 284-289).\<close>

fun is_type_val_list_contains_v :: "'ty \<Rightarrow> 'ty list \<Rightarrow> ('ty, 'v) cval list \<Rightarrow> bool" where
  "is_type_val_list_contains_v TypeFirst TypesRest [] = True"
| "is_type_val_list_contains_v TypeFirst TypesRest (first # rest) =
     contains_list_contains TypeFirst TypesRest (first # rest)"

text \<open>
  \<open>type<Type, defaultValue>::get(args...)\<close> (lines 299-305), five overloads, in the
  order of the source: no argument; one argument of type \<open>Type\<close>; one argument of
  another type; a first argument of type \<open>Type\<close> followed by others; a first argument of
  another type followed by others. An overload taking \<open>const Type first\<close> is chosen only
  for an argument whose type is \<open>Type\<close> itself: for any other type the template
  deducing \<open>First\<close> is the exact match. The result has type \<open>Type\<close>.
\<close>

fun get :: "'ty \<Rightarrow> 'v \<Rightarrow> ('ty, 'v) cval list \<Rightarrow> ('ty, 'v) cval" where
  "get Type defaultValue [] = CVal Type defaultValue"
| "get Type defaultValue [first] =
     (if decl_type first = Type then CVal Type (content first) else CVal Type defaultValue)"
| "get Type defaultValue (first # rest) =
     (if decl_type first = Type then CVal Type (content first) else get Type defaultValue rest)"

section \<open>Characterisations\<close>

lemma fold_and_all: "fold_and es = (\<forall>e \<in> set es. e)"
  by (induction es rule: fold_and.induct) auto

lemma duplicate_type_distinct: "duplicate_type First Rest = distinct (First # Rest)"
  by (induction First Rest rule: duplicate_type.induct)
     (auto simp: fold_and_all is_same_v_def simp del: fold_and.simps)

lemma is_types_unique_distinct: "is_types_unique_v Types = distinct Types"
  by (cases Types) (simp_all add: is_types_unique_v_def is_types_unique_def duplicate_type_distinct)

lemma duplicate_types_val_distinct: "duplicate_types_val args = distinct (map decl_type args)"
  by (induction args rule: duplicate_types_val.induct)
     (auto simp: fold_and_all duplicate_is_same_v_def simp del: fold_and.simps)

lemma is_types_val_unique_distinct: "is_types_val_unique_v args = distinct (map decl_type args)"
  by (cases args rule: is_types_val_unique_v.cases)
     (simp_all add: duplicate_types_val_distinct del: duplicate_types_val.simps)

lemma is_parameter_inside_set: "is_parameter_inside TF TR T = (T \<in> set (TF # TR))"
  by (induction TF TR T rule: is_parameter_inside.induct) (auto simp: is_same_v_def)

lemma contains_set: "contains TF TR P Ps = (set (P # Ps) \<subseteq> set (TF # TR))"
  by (induction TF TR P Ps rule: contains.induct)
     (simp_all add: is_parameter_inside_set del: is_parameter_inside.simps)

lemma contains_v_set: "contains_v TF TR Q = (set Q \<subseteq> set (TF # TR))"
  by (cases Q) (simp_all add: contains_v_def contains_set del: contains.simps)

lemma contains_list_is_parameter_inside_set:
  "contains_list_is_parameter_inside TF TR v = (decl_type v \<in> set (TF # TR))"
  by (induction TF TR v rule: contains_list_is_parameter_inside.induct) auto

lemma contains_list_contains_set:
  "contains_list_contains TF TR args = (decl_type ` set args \<subseteq> set (TF # TR))"
  by (induction args)
     (simp_all add: contains_list_is_parameter_inside_set del: contains_list_is_parameter_inside.simps)

lemma is_type_val_list_contains_v_set:
  "is_type_val_list_contains_v TF TR args = (decl_type ` set args \<subseteq> set (TF # TR))"
  by (cases args)
     (simp_all add: contains_list_contains_set del: contains_list_contains.simps)

lemma get_no_match: "\<forall>x \<in> set args. decl_type x \<noteq> T \<Longrightarrow> get T d args = CVal T d"
  by (induction T d args rule: get.induct) auto

lemma get_skip_prefix:
  "\<forall>x \<in> set pre. decl_type x \<noteq> T \<Longrightarrow> decl_type x = T \<Longrightarrow> get T d (pre @ x # suf) = x"
proof (induction pre)
  case Nil
  then show ?case by (cases suf; cases x) auto
next
  case (Cons p pre)
  then have "get T d (pre @ x # suf) = x" by simp
  moreover obtain y ys where "pre @ x # suf = y # ys" by (cases pre) auto
  ultimately show ?case using Cons.prems(1) by simp
qed

lemma get_decl_type: "decl_type (get T d args) = T"
  by (induction T d args rule: get.induct) auto

lemma get_default_or_member: "get T d args = CVal T d \<or> get T d args \<in> set args"
  by (induction T d args rule: get.induct) (auto simp: cval.expand)

lemma get_at_index:
  assumes "i < length Q" "decl_type (Q ! i) = T" "\<forall>j<i. decl_type (Q ! j) \<noteq> T"
  shows "get T d Q = Q ! i"
proof -
  have Q: "Q = take i Q @ Q ! i # drop (Suc i) Q"
    using assms(1) by (simp add: id_take_nth_drop)
  have "\<forall>x \<in> set (take i Q). decl_type x \<noteq> T"
  proof
    fix x assume "x \<in> set (take i Q)"
    then obtain j where "j < i" "x = Q ! j"
      using assms(1) by (auto simp: in_set_conv_nth)
    with assms(3) show "decl_type x \<noteq> T" by simp
  qed
  then have "get T d (take i Q @ Q ! i # drop (Suc i) Q) = Q ! i"
    using assms(2) by (rule get_skip_prefix)
  with Q show ?thesis by simp
qed

lemma insert_not_distinct: "x \<in> set xs \<Longrightarrow> \<not> distinct (take i xs @ x # drop i xs)"
  by (metis append_take_drop_id distinct_append distinct.simps(2) Un_iff set_append disjoint_iff list.set_intros(1))

section \<open>Uniqueness of a pack\<close>

text \<open>
  C9. The empty pack and every pack of one element are reported unique, by the check on
  types \<open>is_types_unique_v\<close> and by the check on values \<open>is_types_val_unique_v\<close>.
\<close>

theorem unique_empty_and_singleton:
  "is_types_unique_v [] \<and> is_types_unique_v [T] \<and>
   is_types_val_unique_v [] \<and> is_types_val_unique_v [v]"
  by (simp add: is_types_unique_v_def is_types_unique_def)

text \<open>
  C1, as the code has it. \<open>is_types_val_unique_v(P)\<close> is true iff no two distinct
  positions of \<open>P\<close> hold values of the same declared type. The contents of the values
  are never compared: \<open>duplicate::is_same_v\<close> returns \<open>true\<close> for any two arguments of
  one type.
\<close>

theorem val_unique_iff_no_two_positions_of_same_type:
  "is_types_val_unique_v P \<longleftrightarrow>
     \<not> (\<exists>i<length P. \<exists>j<length P. i \<noteq> j \<and> decl_type (P ! i) = decl_type (P ! j))"
proof -
  have "distinct (map decl_type P) \<longleftrightarrow>
     \<not> (\<exists>i<length P. \<exists>j<length P. i \<noteq> j \<and> decl_type (P ! i) = decl_type (P ! j))"
    by (auto simp: distinct_conv_nth)
  then show ?thesis by (simp only: is_types_val_unique_distinct)
qed

text \<open>
  C1, as stated, would have two constant values equal only when type and value agree,
  and would report the pack of the unit test at line 429,
  \<open>(TestType4::TestValue2, false, TestType5::TestValue1, true)\<close>, unique: its four
  constant values are pairwise different (\<open>false\<close> and \<open>true\<close> have one type and different
  values). The code reports it not unique, as that unit test asserts.
\<close>

theorem val_unique_ignores_content_counterexample:
  "distinct [CVal TestType4 (2016587009::int), CVal TestType7 0, CVal TestType5 256901, CVal TestType7 1] \<and>
   \<not> is_types_val_unique_v
       [CVal TestType4 (2016587009::int), CVal TestType7 0, CVal TestType5 256901, CVal TestType7 1]"
  by (simp add: duplicate_is_same_v_def)

text \<open>
  C10. On every pack of constant values, \<open>is_types_val_unique_v\<close> returns what
  \<open>is_types_unique_v\<close> returns on the pack of their declared types.
\<close>

theorem val_unique_eq_type_unique:
  "is_types_val_unique_v args = is_types_unique_v (map decl_type args)"
  by (simp only: is_types_val_unique_distinct is_types_unique_distinct)

text \<open>
  C8. A duplicate of an element of a unique pack, inserted at any position \<open>i\<close> (start
  \<open>0\<close>, middle, end \<open>length P\<close>), makes the check false, for the check on types and for
  the check on values.
\<close>

theorem duplicate_at_any_position:
  "(is_types_unique_v P \<and> T \<in> set P \<and> i \<le> length P \<longrightarrow>
      \<not> is_types_unique_v (take i P @ T # drop i P)) \<and>
   (is_types_val_unique_v V \<and> v \<in> set V \<and> j \<le> length V \<longrightarrow>
      \<not> is_types_val_unique_v (take j V @ v # drop j V))"
proof (intro conjI impI)
  assume "is_types_unique_v P \<and> T \<in> set P \<and> i \<le> length P"
  then have "T \<in> set P" by simp
  then have "\<not> distinct (take i P @ T # drop i P)"
    by (rule insert_not_distinct)
  then show "\<not> is_types_unique_v (take i P @ T # drop i P)"
    unfolding is_types_unique_distinct .
next
  assume "is_types_val_unique_v V \<and> v \<in> set V \<and> j \<le> length V"
  then have "decl_type v \<in> set (map decl_type V)" by simp
  then have "\<not> distinct (take j (map decl_type V) @ decl_type v # drop j (map decl_type V))"
    by (rule insert_not_distinct)
  then have "\<not> distinct (map decl_type (take j V @ v # drop j V))"
    by (simp add: take_map drop_map)
  then show "\<not> is_types_val_unique_v (take j V @ v # drop j V)"
    unfolding is_types_val_unique_distinct .
qed

text \<open>
  The unit tests of lines 350 and 434: \<open>TestType2\<close> inserted at position 4 of a unique
  pack of types, and a second \<open>TestType9{}\<close> at position 4 of a unique pack of values.
\<close>

theorem duplicate_at_any_position_witness:
  "is_types_unique_v [TestType1, TestType2, TestType3, TestType6, TestType8, TestType7] \<and>
   TestType2 \<in> set [TestType1, TestType2, TestType3, TestType6, TestType8, TestType7] \<and>
   (4::nat) \<le> length [TestType1, TestType2, TestType3, TestType6, TestType8, TestType7] \<and>
   \<not> is_types_unique_v
       [TestType1, TestType2, TestType3, TestType6, TestType2, TestType8, TestType7] \<and>
   is_types_val_unique_v [CVal TestType1 (0::int), CVal TestType9 0, CVal TestType3 0, CVal TestType6 0, CVal TestType7 0] \<and>
   CVal TestType9 0 \<in> set [CVal TestType1 (0::int), CVal TestType9 0, CVal TestType3 0, CVal TestType6 0, CVal TestType7 0] \<and>
   (4::nat) \<le> length [CVal TestType1 (0::int), CVal TestType9 0, CVal TestType3 0, CVal TestType6 0, CVal TestType7 0] \<and>
   \<not> is_types_val_unique_v
       [CVal TestType1 (0::int), CVal TestType9 0, CVal TestType3 0, CVal TestType6 0, CVal TestType9 0, CVal TestType7 0]"
  using duplicate_at_any_position
    [of "[TestType1, TestType2, TestType3, TestType6, TestType8, TestType7]" TestType2 4
        "[CVal TestType1 (0::int), CVal TestType9 0, CVal TestType3 0, CVal TestType6 0, CVal TestType7 0]"
        "CVal TestType9 0" 4]
  by (simp add: is_types_unique_distinct is_types_val_unique_distinct
        del: is_types_val_unique_v.simps)

section \<open>Membership in a list of allowed types\<close>

text \<open>
  C2. For an allowed list \<open>A = TypeFirst # TypeRest\<close> and a query pack \<open>Q\<close>,
  \<open>is_type_list<A...>::contains_v<Q...>\<close> is true iff \<open>Q\<close> is empty or every type of \<open>Q\<close>
  is identical to a type of \<open>A\<close>. A type \<open>q\<close> that is related to a member \<open>a\<close> of \<open>A\<close> by
  any relation \<open>conv\<close> (convertibility, subtyping) and is not itself in \<open>A\<close> is not found
  by \<open>is_parameter_inside\<close>, and makes every query pack that holds it fail.
\<close>

theorem contains_v_iff_identical:
  "(contains_v TypeFirst TypeRest Q \<longleftrightarrow>
      Q = [] \<or> (\<forall>q \<in> set Q. \<exists>a \<in> set (TypeFirst # TypeRest). q = a)) \<and>
   (conv q a \<and> a \<in> set (TypeFirst # TypeRest) \<and> q \<notin> set (TypeFirst # TypeRest) \<longrightarrow>
      \<not> is_parameter_inside TypeFirst TypeRest q \<and>
      (q \<in> set Q \<longrightarrow> \<not> contains_v TypeFirst TypeRest Q))"
  unfolding contains_v_set is_parameter_inside_set by auto

text \<open>
  The unit test of line 370: \<open>bool\<close> converts to \<open>unsigned\<close>, which is in the list, and is
  not a member.
\<close>

theorem contains_v_iff_identical_witness:
  "implicitly_convertible TestType7 TestType9 \<and>
   TestType9 \<in> set [TestType1, TestType2, TestType9, TestType3, TestType6] \<and>
   TestType7 \<notin> set [TestType1, TestType2, TestType9, TestType3, TestType6] \<and>
   TestType7 \<in> set [TestType7] \<and>
   \<not> is_parameter_inside TestType1 [TestType2, TestType9, TestType3, TestType6] TestType7 \<and>
   \<not> contains_v TestType1 [TestType2, TestType9, TestType3, TestType6] [TestType7] \<and>
   contains_v TestType1 [TestType2, TestType9, TestType3, TestType6] [TestType9] \<and>
   contains_v TestType1 [TestType2, TestType9, TestType3, TestType6] []"
proof -
  have h: "implicitly_convertible TestType7 TestType9 \<and>
      TestType9 \<in> set [TestType1, TestType2, TestType9, TestType3, TestType6] \<and>
      TestType7 \<notin> set [TestType1, TestType2, TestType9, TestType3, TestType6]"
    by (simp add: implicitly_convertible_def)
  note t = contains_v_iff_identical
    [of TestType1 "[TestType2, TestType9, TestType3, TestType6]" _ implicitly_convertible
        TestType7 TestType9]
  from h t [of "[TestType7]"] t [of "[TestType9]"] t [of "[]"] show ?thesis
    by simp
qed

text \<open>
  C6. The result of \<open>contains_v\<close> is the same for a query pack and for any permutation
  of it (two lists are permutations of one another iff they have the same multiset).
\<close>

theorem query_permutation_invariant:
  "mset Q = mset Q' \<Longrightarrow> contains_v TypeFirst TypeRest Q = contains_v TypeFirst TypeRest Q'"
  unfolding contains_v_set by (metis set_mset_mset)

text \<open>
  The unit tests of lines 372 and 375.
\<close>

theorem query_permutation_invariant_witness:
  "mset [TestType1, TestType4, TestType7, TestType8] = mset [TestType8, TestType7, TestType1, TestType4] \<and>
   contains_v TestType1 [TestType2, TestType3, TestType4, TestType7, TestType8, TestType9]
      [TestType1, TestType4, TestType7, TestType8] =
   contains_v TestType1 [TestType2, TestType3, TestType4, TestType7, TestType8, TestType9]
      [TestType8, TestType7, TestType1, TestType4]"
proof -
  have h: "mset [TestType1, TestType4, TestType7, TestType8] = mset [TestType8, TestType7, TestType1, TestType4]"
    by (simp add: add_mset_commute)
  show ?thesis
    using h query_permutation_invariant [OF h] by blast
qed

text \<open>
  C7. The result of \<open>contains_v\<close> is the same for an allowed list and for any
  permutation of it.
\<close>

theorem allowed_permutation_invariant:
  "mset (TypeFirst # TypeRest) = mset (TypeFirst' # TypeRest') \<Longrightarrow>
   contains_v TypeFirst TypeRest Q = contains_v TypeFirst' TypeRest' Q"
  unfolding contains_v_set by (metis set_mset_mset)

theorem allowed_permutation_invariant_witness:
  "mset (TestType4 # [TestType5, TestType6]) = mset (TestType6 # [TestType4, TestType5]) \<and>
   contains_v TestType4 [TestType5, TestType6] [TestType5, TestType7] =
   contains_v TestType6 [TestType4, TestType5] [TestType5, TestType7]"
proof -
  have h: "mset (TestType4 # [TestType5, TestType6]) = mset (TestType6 # [TestType4, TestType5])"
    by (simp add: add_mset_commute)
  show ?thesis
    using h allowed_permutation_invariant [OF h] by blast
qed

text \<open>
  C5. \<open>is_type_val_list<A...>::contains_v(Q)\<close> is true iff the declared type of every
  value of \<open>Q\<close> is identical to a type of \<open>A\<close>; two packs with the same declared types
  get the same answer, whatever their contents; the empty pack gives true.
\<close>

theorem is_type_val_list_contains_v_iff:
  "(is_type_val_list_contains_v TypeFirst TypesRest Q \<longleftrightarrow>
      (\<forall>x \<in> set Q. \<exists>a \<in> set (TypeFirst # TypesRest). decl_type x = a)) \<and>
   (map decl_type Q = map decl_type Q' \<longrightarrow>
      is_type_val_list_contains_v TypeFirst TypesRest Q' =
      is_type_val_list_contains_v TypeFirst TypesRest Q) \<and>
   is_type_val_list_contains_v TypeFirst TypesRest []"
proof (intro conjI impI)
  show "is_type_val_list_contains_v TypeFirst TypesRest Q \<longleftrightarrow>
      (\<forall>x \<in> set Q. \<exists>a \<in> set (TypeFirst # TypesRest). decl_type x = a)"
    unfolding is_type_val_list_contains_v_set by auto
next
  assume "map decl_type Q = map decl_type Q'"
  then have "decl_type ` set Q = decl_type ` set Q'"
    by (metis set_map)
  then show "is_type_val_list_contains_v TypeFirst TypesRest Q' =
      is_type_val_list_contains_v TypeFirst TypesRest Q"
    unfolding is_type_val_list_contains_v_set by simp
next
  show "is_type_val_list_contains_v TypeFirst TypesRest []" by simp
qed

text \<open>
  The unit tests of lines 437 and 439.
\<close>

theorem is_type_val_list_contains_v_iff_witness:
  "map decl_type [CVal TestType4 (2016587009::int), CVal T_long (- 56836)] =
     map decl_type [CVal TestType4 (0::int), CVal T_long 1] \<and>
   is_type_val_list_contains_v T_int [TestType4, T_bool, T_unsigned, T_long]
     [CVal TestType4 (2016587009::int), CVal T_long (- 56836)] \<and>
   is_type_val_list_contains_v T_int [TestType4, T_bool, T_unsigned, T_long]
     [CVal TestType4 (0::int), CVal T_long 1] \<and>
   \<not> is_type_val_list_contains_v T_int [TestType4, T_bool, T_unsigned, T_long]
     [CVal TestType4 (2016587009::int), CVal T_long (- 56836), CVal T_unsigned_long 745983548]"
  using is_type_val_list_contains_v_iff
      [of T_int "[TestType4, T_bool, T_unsigned, T_long]"
          "[CVal TestType4 (2016587009::int), CVal T_long (- 56836)]"
          "[CVal TestType4 (0::int), CVal T_long 1]"]
    is_type_val_list_contains_v_iff
      [of T_int "[TestType4, T_bool, T_unsigned, T_long]"
          "[CVal TestType4 (2016587009::int), CVal T_long (- 56836), CVal T_unsigned_long 745983548]"
          "[]"]
  by simp

section \<open>Extraction by type\<close>

text \<open>
  C3. When position \<open>i\<close> of the pack \<open>Q\<close> holds a value of declared type \<open>T\<close> and no
  position before \<open>i\<close> does, \<open>type<T, d>::get(Q)\<close> returns the value at position \<open>i\<close>. The
  values before \<open>i\<close> are skipped whatever they are, convertible to \<open>T\<close> or not, and the
  result is the same for every other pack \<open>Q'\<close> with that value at position \<open>i\<close> and no
  value of type \<open>T\<close> before it.
\<close>

theorem get_returns_first_of_type:
  "i < length Q \<and> decl_type (Q ! i) = T \<and> (\<forall>j<i. decl_type (Q ! j) \<noteq> T) \<longrightarrow>
     get T d Q = Q ! i \<and>
     (i < length Q' \<and> Q' ! i = Q ! i \<and> (\<forall>j<i. decl_type (Q' ! j) \<noteq> T) \<longrightarrow>
        get T d Q' = get T d Q)"
proof (intro impI conjI)
  assume Q: "i < length Q \<and> decl_type (Q ! i) = T \<and> (\<forall>j<i. decl_type (Q ! j) \<noteq> T)"
  then show at_i: "get T d Q = Q ! i"
    using get_at_index [of i Q T d] by blast
  assume Q': "i < length Q' \<and> Q' ! i = Q ! i \<and> (\<forall>j<i. decl_type (Q' ! j) \<noteq> T)"
  with Q have "decl_type (Q' ! i) = T" by simp
  with Q' have "get T d Q' = Q' ! i"
    using get_at_index [of i Q' T d] by blast
  with at_i Q' show "get T d Q' = get T d Q" by simp
qed

text \<open>
  With \<open>T = unsigned long\<close>: a \<open>bool\<close> and an \<open>int\<close>, both convertible to \<open>T\<close>, are
  skipped, and the first of two values of type \<open>T\<close> is returned.
\<close>

theorem get_returns_first_of_type_witness:
  "(2::nat) < length [CVal T_bool (1::int), CVal T_int (- 1), CVal T_unsigned_long 367, CVal T_unsigned_long 5] \<and>
   decl_type ([CVal T_bool (1::int), CVal T_int (- 1), CVal T_unsigned_long 367, CVal T_unsigned_long 5] ! 2) = T_unsigned_long \<and>
   decl_type ([CVal T_bool (1::int), CVal T_int (- 1), CVal T_unsigned_long 367, CVal T_unsigned_long 5] ! 0) \<noteq> T_unsigned_long \<and>
   decl_type ([CVal T_bool (1::int), CVal T_int (- 1), CVal T_unsigned_long 367, CVal T_unsigned_long 5] ! 1) \<noteq> T_unsigned_long \<and>
   implicitly_convertible T_bool T_unsigned_long \<and> implicitly_convertible T_int T_unsigned_long \<and>
   get T_unsigned_long 0 [CVal T_bool (1::int), CVal T_int (- 1), CVal T_unsigned_long 367, CVal T_unsigned_long 5]
     = CVal T_unsigned_long 367 \<and>
   get T_unsigned_long 0 [CVal T_unsigned 77, CVal TestType4 (2016587009::int), CVal T_unsigned_long 367]
     = CVal T_unsigned_long 367"
proof -
  let ?Q = "[CVal T_bool (1::int), CVal T_int (- 1), CVal T_unsigned_long 367, CVal T_unsigned_long 5]"
  let ?Q' = "[CVal T_unsigned 77, CVal TestType4 (2016587009::int), CVal T_unsigned_long 367]"
  have two: "\<And>P. (\<forall>j<2::nat. P j) \<longleftrightarrow> P 0 \<and> P 1"
    by (auto simp: less_2_cases_iff)
  have h: "2 < length ?Q \<and> decl_type (?Q ! 2) = T_unsigned_long \<and>
      (\<forall>j<2. decl_type (?Q ! j) \<noteq> T_unsigned_long)"
    by (simp add: two)
  have h': "2 < length ?Q' \<and> ?Q' ! 2 = ?Q ! 2 \<and> (\<forall>j<2. decl_type (?Q' ! j) \<noteq> T_unsigned_long)"
    by (simp add: two)
  from get_returns_first_of_type [of 2 ?Q T_unsigned_long 0 ?Q'] h h'
  have "get T_unsigned_long 0 ?Q = ?Q ! 2 \<and> get T_unsigned_long 0 ?Q' = get T_unsigned_long 0 ?Q"
    by blast
  then show ?thesis
    by (simp add: implicitly_convertible_def del: get.simps)
qed

text \<open>
  C4. \<open>type<T, d>::get(Q)\<close> returns the default \<open>d\<close> when no value of \<open>Q\<close> has declared
  type \<open>T\<close>, and for the empty pack. On every pack it returns a value of type \<open>T\<close>:
  the default or an element of the pack.
\<close>

theorem get_falls_back_to_default:
  "((\<forall>x \<in> set Q. decl_type x \<noteq> T) \<longrightarrow> get T d Q = CVal T d) \<and>
   get T d [] = CVal T d \<and>
   decl_type (get T d Q) = T \<and>
   (get T d Q = CVal T d \<or> get T d Q \<in> set Q)"
  using get_no_match [of Q T d] get_decl_type [of T d Q] get_default_or_member [of T d Q]
  by simp

text \<open>
  The unit tests of lines 424 and 425 (the default is \<open>TestType4{}\<close>, then
  \<open>TestType4::TestValue1\<close>), and the empty pack.
\<close>

theorem get_falls_back_to_default_witness:
  "decl_type (CVal T_bool (1::int)) \<noteq> TestType4 \<and> decl_type (CVal T_int (- 1 :: int)) \<noteq> TestType4 \<and>
   decl_type (CVal T_unsigned (367::int)) \<noteq> TestType4 \<and>
   get TestType4 0 [CVal T_bool (1::int), CVal T_int (- 1), CVal T_unsigned 367] = CVal TestType4 0 \<and>
   get TestType4 41216 [CVal T_bool (1::int), CVal T_int (- 1), CVal T_unsigned 367] = CVal TestType4 41216 \<and>
   get TestType4 (41216::int) [] = CVal TestType4 41216"
  using get_falls_back_to_default
      [of "[CVal T_bool (1::int), CVal T_int (- 1), CVal T_unsigned 367]" TestType4 0]
    get_falls_back_to_default
      [of "[CVal T_bool (1::int), CVal T_int (- 1), CVal T_unsigned 367]" TestType4 41216]
    get_falls_back_to_default [of "[]" TestType4 "41216::int"]
  by (simp del: get.simps)

end
